theory Spec2Isabelle
  imports Main "HOL-Library.Sublist"
begin

section \<open>The process governor of server/script/ipc/governor.go\<close>

text \<open>
  The Governor keeps one worker process alive: it serialises request/response exchanges
  through a mutex and respawns the worker when the channel to it dies. The Process
  interface is abstract in the source, so the model takes its methods as parameters
  (an environment acting on an arbitrary world) and records every call the Governor
  makes in a trace, in the order the source makes them.
\<close>

subsection \<open>Errors\<close>

text \<open>
  A Go \<^verbatim>\<open>error\<close> is observed through its message (\<^verbatim>\<open>Error()\<close>) and its cause chain
  (\<^verbatim>\<open>Unwrap()\<close>). \<open>EOF\<close> is the sentinel \<^verbatim>\<open>io.EOF\<close>; \<open>ErrorString m\<close> is an error
  without a cause (\<^verbatim>\<open>errors.New(m)\<close>); \<open>Wrapped m c\<close> is an error with message \<open>m\<close>
  and cause \<open>c\<close>. Error types with an \<^verbatim>\<open>Is\<close> method of their own are not modelled.
\<close>

datatype error = EOF | ErrorString string | Wrapped string error

primrec Error :: "error \<Rightarrow> string" where
  "Error EOF = ''EOF''"
| "Error (ErrorString m) = m"
| "Error (Wrapped m c) = m"

primrec Unwrap :: "error \<Rightarrow> error option" where
  "Unwrap EOF = None"
| "Unwrap (ErrorString m) = None"
| "Unwrap (Wrapped m c) = Some c"

text \<open>\<^verbatim>\<open>errors.Is(err, target)\<close>: \<open>err\<close> or some error of its cause chain is \<open>target\<close>.\<close>

primrec errors_Is :: "error \<Rightarrow> error \<Rightarrow> bool" where
  "errors_Is EOF target = (EOF = target)"
| "errors_Is (ErrorString m) target = (ErrorString m = target)"
| "errors_Is (Wrapped m c) target = (Wrapped m c = target \<or> errors_Is c target)"

text \<open>
  \<^verbatim>\<open>errors.Wrap(err, message)\<close> of github.com/pkg/errors, for a non-nil \<open>err\<close>: the
  message is \<^verbatim>\<open>message + ": " + err.Error()\<close> and the cause is \<open>err\<close>.
\<close>

definition errors_Wrap :: "error \<Rightarrow> string \<Rightarrow> error" where
  "errors_Wrap err message = Wrapped (message @ '': '' @ Error err) err"

text \<open>\<^verbatim>\<open>strings.Contains(s, substr)\<close>: \<open>substr\<close> starts at some position of \<open>s\<close>.\<close>

fun strings_Contains :: "string \<Rightarrow> string \<Rightarrow> bool" where
  "strings_Contains [] substr = (substr = [])"
| "strings_Contains (c # s) substr = (prefix substr (c # s) \<or> strings_Contains s substr)"

subsection \<open>Contexts, the Process interface and the state\<close>

type_synonym bytes = string

text \<open>
  A context is \<^verbatim>\<open>context.Background()\<close>, which is never done, or a context named by a
  number whose \<^verbatim>\<open>Err()\<close> the environment decides from the world (\<open>None\<close> is nil: the
  context is not done).
\<close>

datatype Context = Background | Ctx nat

datatype 'p event =
    EvLock
  | EvUnlock
  | EvSend 'p bytes
  | EvReceive 'p
  | EvWait 'p
  | EvSpawn 'p
  | EvKill 'p

text \<open>
  The methods of the Process interface, on a handle \<open>'p\<close> and a world \<open>'w\<close>. A Go pair
  \<^verbatim>\<open>([]byte, error)\<close> is a pair of the bytes (nil is the empty list) and an optional
  error. \<open>ctx_err\<close> is \<^verbatim>\<open>Err()\<close> of a numbered context. \<open>mu_wait\<close> is the wait of a
  caller for the mutex: whether the lock came before the context was done, and the world
  after the wait.
\<close>

record ('p, 'w) env =
  proc_Send :: "'p \<Rightarrow> Context \<Rightarrow> bytes \<Rightarrow> 'w \<Rightarrow> error option \<times> 'w"
  proc_Receive :: "'p \<Rightarrow> Context \<Rightarrow> 'w \<Rightarrow> (bytes \<times> error option) \<times> 'w"
  proc_Spawn :: "'p \<Rightarrow> 'w \<Rightarrow> (error + 'p) \<times> 'w"
  proc_Kill :: "'p \<Rightarrow> 'w \<Rightarrow> 'w"
  proc_Wait :: "'p \<Rightarrow> 'w \<Rightarrow> error option \<times> 'w"
  ctx_err :: "nat \<Rightarrow> 'w \<Rightarrow> error option"
  mu_wait :: "Context \<Rightarrow> 'w \<Rightarrow> bool \<times> 'w"

text \<open>
  The state: the Governor's field \<open>process\<close>, the world the processes live in, and the
  trace of the calls made so far.
\<close>

record ('p, 'w) state =
  process :: 'p
  world :: 'w
  trace :: "'p event list"

definition ctx_Err :: "('p, 'w) env \<Rightarrow> Context \<Rightarrow> 'w \<Rightarrow> error option" where
  "ctx_Err env ctx w = (case ctx of Background \<Rightarrow> None | Ctx c \<Rightarrow> ctx_err env c w)"

definition log_event :: "'p event \<Rightarrow> ('p, 'w) state \<Rightarrow> ('p, 'w) state" where
  "log_event ev s = s\<lparr>trace := trace s @ [ev]\<rparr>"

text \<open>The calls \<^verbatim>\<open>g.process.Send\<close>, \<^verbatim>\<open>Receive\<close>, \<^verbatim>\<open>Wait\<close>, \<^verbatim>\<open>Spawn\<close>, \<^verbatim>\<open>Kill\<close> on the current handle.\<close>

definition process_Send ::
  "('p, 'w) env \<Rightarrow> Context \<Rightarrow> bytes \<Rightarrow> ('p, 'w) state \<Rightarrow> error option \<times> ('p, 'w) state" where
  "process_Send env ctx data s =
     (case proc_Send env (process s) ctx data (world s) of
        (err, w) \<Rightarrow> (err, log_event (EvSend (process s) data) (s\<lparr>world := w\<rparr>)))"

definition process_Receive ::
  "('p, 'w) env \<Rightarrow> Context \<Rightarrow> ('p, 'w) state \<Rightarrow> (bytes \<times> error option) \<times> ('p, 'w) state" where
  "process_Receive env ctx s =
     (case proc_Receive env (process s) ctx (world s) of
        (r, w) \<Rightarrow> (r, log_event (EvReceive (process s)) (s\<lparr>world := w\<rparr>)))"

definition process_Wait ::
  "('p, 'w) env \<Rightarrow> ('p, 'w) state \<Rightarrow> error option \<times> ('p, 'w) state" where
  "process_Wait env s =
     (case proc_Wait env (process s) (world s) of
        (err, w) \<Rightarrow> (err, log_event (EvWait (process s)) (s\<lparr>world := w\<rparr>)))"

definition process_Spawn ::
  "('p, 'w) env \<Rightarrow> ('p, 'w) state \<Rightarrow> (error + 'p) \<times> ('p, 'w) state" where
  "process_Spawn env s =
     (case proc_Spawn env (process s) (world s) of
        (r, w) \<Rightarrow> (r, log_event (EvSpawn (process s)) (s\<lparr>world := w\<rparr>)))"

definition process_Kill :: "('p, 'w) env \<Rightarrow> ('p, 'w) state \<Rightarrow> ('p, 'w) state" where
  "process_Kill env s =
     log_event (EvKill (process s)) (s\<lparr>world := proc_Kill env (process s) (world s)\<rparr>)"

subsection \<open>The mutex\<close>

text \<open>
  Modelled from the spec: the type \<^verbatim>\<open>Mutex\<close> and its method \<^verbatim>\<open>Lock\<close> are not among the
  sources. \<^verbatim>\<open>Lock(ctx)\<close> blocks until the lock is acquired or the context is done,
  whichever comes first; when the context is done first it returns the context's error
  and no lock is held; otherwise it returns a release callback. The result \<open>None\<close> is
  the pair of the release callback and a nil error; \<open>Some err\<close> is the pair of a nil
  callback and \<open>err\<close>. Which callers contend for the lock is outside this sequential
  model: the environment says which of the two came first.
\<close>

definition Lock ::
  "('p, 'w) env \<Rightarrow> Context \<Rightarrow> ('p, 'w) state \<Rightarrow> error option \<times> ('p, 'w) state" where
  "Lock env ctx s =
     (case mu_wait env ctx (world s) of
        (acquired, w) \<Rightarrow>
          (case ctx_Err env ctx w of
             None \<Rightarrow> (None, log_event EvLock (s\<lparr>world := w\<rparr>))
           | Some err \<Rightarrow>
               if acquired then (None, log_event EvLock (s\<lparr>world := w\<rparr>))
               else (Some err, s\<lparr>world := w\<rparr>)))"

text \<open>Modelled from the spec: the release callback that a successful \<^verbatim>\<open>Lock\<close> returns.\<close>

definition release :: "('p, 'w) state \<Rightarrow> ('p, 'w) state" where
  "release s = log_event EvUnlock s"

subsection \<open>The Governor\<close>

text \<open>
  \<^verbatim>\<open>Govern\<close>: spawn the first process from the template. The calls to the logger only
  read \<^verbatim>\<open>String()\<close> and are left out throughout.
\<close>

definition Govern ::
  "('p, 'w) env \<Rightarrow> 'p \<Rightarrow> 'w \<Rightarrow> (error \<times> 'w) + ('p, 'w) state" where
  "Govern env template w =
     (case proc_Spawn env template w of
        (Inl err, w1) \<Rightarrow> Inl (errors_Wrap err ''spawn'', w1)
      | (Inr p, w1) \<Rightarrow> Inr \<lparr>process = p, world = w1, trace = [EvSpawn template]\<rparr>)"

text \<open>\<^verbatim>\<open>Governor.exchange\<close>: one attempt, Send and then Receive.\<close>

definition exchange ::
  "('p, 'w) env \<Rightarrow> Context \<Rightarrow> bytes \<Rightarrow> ('p, 'w) state \<Rightarrow>
     (bytes \<times> error option) \<times> ('p, 'w) state" where
  "exchange env ctx data s =
     (case process_Send env ctx data s of
        (Some err, s1) \<Rightarrow> (([], Some err), s1)
      | (None, s1) \<Rightarrow> process_Receive env ctx s1)"

text \<open>
  The body of the \<^verbatim>\<open>for\<close> loop of \<^verbatim>\<open>Governor.Exchange\<close>: it returns from the function
  or goes on with the next iteration (\<^verbatim>\<open>continue\<close>).
\<close>

datatype 'a flow = Return 'a | Continue

definition Exchange_body ::
  "('p, 'w) env \<Rightarrow> Context \<Rightarrow> bytes \<Rightarrow> ('p, 'w) state \<Rightarrow>
     (bytes \<times> error option) flow \<times> ('p, 'w) state" where
  "Exchange_body env ctx data s =
     (case ctx_Err env ctx (world s) of
        Some cerr \<Rightarrow> (Return ([], Some cerr), s)
      | None \<Rightarrow>
         (case exchange env ctx data s of
            ((data', None), s1) \<Rightarrow> (Return (data', None), s1)
          | ((data', Some err), s1) \<Rightarrow>
              if errors_Is err EOF \<or>
                 strings_Contains (Error err) ''file already closed'' \<or>
                 strings_Contains (Error err) ''broken pipe''
              then
                (case process_Wait env s1 of
                   (Some werr, s2) \<Rightarrow> (Return ([], Some werr), s2)
                 | (None, s2) \<Rightarrow>
                    (case process_Spawn env s2 of
                       (Inl serr, s3) \<Rightarrow> (Return ([], Some (errors_Wrap serr ''respawn'')), s3)
                     | (Inr p, s3) \<Rightarrow> (Continue, s3\<lparr>process := p\<rparr>)))
              else (Return ([], Some err), s1)))"

text \<open>The loop itself has no bound: \<open>None\<close> is the run that never returns.\<close>

partial_function (option) Exchange_loop ::
  "('p, 'w) env \<Rightarrow> Context \<Rightarrow> bytes \<Rightarrow> ('p, 'w) state \<Rightarrow>
     ((bytes \<times> error option) \<times> ('p, 'w) state) option" where
  "Exchange_loop env ctx data s =
     (case Exchange_body env ctx data s of
        (Return r, s1) \<Rightarrow> Some (r, s1)
      | (Continue, s1) \<Rightarrow> Exchange_loop env ctx data s1)"

declare Exchange_loop.simps [code]

text \<open>\<^verbatim>\<open>Governor.Exchange\<close>: lock, run the loop, and release on the way out (\<^verbatim>\<open>defer\<close>).\<close>

definition Exchange ::
  "('p, 'w) env \<Rightarrow> Context \<Rightarrow> bytes \<Rightarrow> ('p, 'w) state \<Rightarrow>
     ((bytes \<times> error option) \<times> ('p, 'w) state) option" where
  "Exchange env ctx data s =
     (case Lock env ctx s of
        (Some err, s0) \<Rightarrow> Some (([], Some err), s0)
      | (None, s0) \<Rightarrow>
         (case Exchange_loop env ctx data s0 of
            None \<Rightarrow> None
          | Some (r, s1) \<Rightarrow> Some (r, release s1)))"

text \<open>\<^verbatim>\<open>Governor.ExchangeDirect\<close>: lock, one attempt, release.\<close>

definition ExchangeDirect ::
  "('p, 'w) env \<Rightarrow> Context \<Rightarrow> bytes \<Rightarrow> ('p, 'w) state \<Rightarrow>
     (bytes \<times> error option) \<times> ('p, 'w) state" where
  "ExchangeDirect env ctx data s =
     (case Lock env ctx s of
        (Some err, s0) \<Rightarrow> (([], Some err), s0)
      | (None, s0) \<Rightarrow>
         (case exchange env ctx data s0 of (r, s1) \<Rightarrow> (r, release s1)))"

text \<open>
  \<^verbatim>\<open>Governor.Kill\<close> and \<^verbatim>\<open>Governor.Wait\<close> lock with the background context, drop the
  error of \<^verbatim>\<open>Lock\<close> and defer the callback whatever it is. Were the callback nil, the
  deferred call would panic once the body has run: that is the result \<open>None\<close>.
\<close>

definition Kill :: "('p, 'w) env \<Rightarrow> ('p, 'w) state \<Rightarrow> ('p, 'w) state option" where
  "Kill env s =
     (case Lock env Background s of
        (None, s0) \<Rightarrow> Some (release (process_Kill env s0))
      | (Some err, s0) \<Rightarrow> None)"

definition Wait ::
  "('p, 'w) env \<Rightarrow> ('p, 'w) state \<Rightarrow> (error option \<times> ('p, 'w) state) option" where
  "Wait env s =
     (case Lock env Background s of
        (None, s0) \<Rightarrow>
          (case process_Wait env s0 of
             (Some err, s1) \<Rightarrow> Some (Some err, release s1)
           | (None, s1) \<Rightarrow> Some (None, release s1))
      | (Some err, s0) \<Rightarrow> None)"

subsection \<open>Iterations, the classification in the specification's words, test doubles\<close>

text \<open>
  \<open>loop_top env ctx data n s\<close> is the state at the top of iteration \<open>n\<close> of the loop
  started in \<open>s\<close> (iteration 0 is the first), if the loop gets that far.
\<close>

fun loop_top ::
  "('p, 'w) env \<Rightarrow> Context \<Rightarrow> bytes \<Rightarrow> nat \<Rightarrow> ('p, 'w) state \<Rightarrow> ('p, 'w) state option" where
  "loop_top env ctx data 0 s = Some s"
| "loop_top env ctx data (Suc n) s =
     (case Exchange_body env ctx data s of
        (Return r, s1) \<Rightarrow> None
      | (Continue, s1) \<Rightarrow> loop_top env ctx data n s1)"

text \<open>
  The specification's transient transport failure, in its own words: the error is EOF
  somewhere in its cause chain, or its message contains "file already closed", or its
  message contains "broken pipe".
\<close>

primrec cause_chain :: "error \<Rightarrow> error list" where
  "cause_chain EOF = [EOF]"
| "cause_chain (ErrorString m) = [ErrorString m]"
| "cause_chain (Wrapped m c) = Wrapped m c # cause_chain c"

definition transient_transport_failure :: "error \<Rightarrow> bool" where
  "transient_transport_failure err =
     (EOF \<in> set (cause_chain err) \<or>
      sublist ''file already closed'' (Error err) \<or>
      sublist ''broken pipe'' (Error err))"

text \<open>The events of a respawn: reaping a handle and spawning from it.\<close>

fun respawn_event :: "'p event \<Rightarrow> bool" where
  "respawn_event (EvWait p) = True"
| "respawn_event (EvSpawn p) = True"
| "respawn_event ev = False"

fun lock_event :: "'p event \<Rightarrow> bool" where
  "lock_event EvLock = True"
| "lock_event EvUnlock = True"
| "lock_event ev = False"

text \<open>
  A fake process for concrete runs, in the manner of a unit test's double. Handles are
  numbers, and \<open>Spawn\<close> on handle \<open>p\<close> gives handle \<open>p + 1\<close>; the world counts the
  calls made (\<open>clock\<close>) and keeps the last request sent (\<open>inbox\<close>). The configuration
  says which handle fails in which method. The context \<open>Ctx d\<close> has its deadline at
  clock \<open>d\<close>; the mutex is free.
\<close>

record fake_world =
  clock :: nat
  inbox :: bytes

record fake_cfg =
  send_err :: "nat \<Rightarrow> error option"
  recv_err :: "nat \<Rightarrow> error option"
  wait_err :: "nat \<Rightarrow> error option"
  spawn_err :: "nat \<Rightarrow> error option"

definition tick :: "fake_world \<Rightarrow> fake_world" where
  "tick w = w\<lparr>clock := Suc (clock w)\<rparr>"

definition reply :: "bytes \<Rightarrow> bytes" where
  "reply request = (if request = ''Q'' then ''R2'' else ''?'')"

definition DeadlineExceeded :: error where
  "DeadlineExceeded = ErrorString ''context deadline exceeded''"

definition ErrBadRequest :: error where
  "ErrBadRequest = ErrorString ''bad request''"

definition fake :: "fake_cfg \<Rightarrow> (nat, fake_world) env" where
  "fake cfg =
     \<lparr>proc_Send = (\<lambda>p ctx data w. (send_err cfg p, tick (w\<lparr>inbox := data\<rparr>))),
      proc_Receive = (\<lambda>p ctx w.
         (case recv_err cfg p of
            Some err \<Rightarrow> (([], Some err), tick w)
          | None \<Rightarrow> ((reply (inbox w), None), tick w))),
      proc_Spawn = (\<lambda>p w.
         (case spawn_err cfg p of
            Some err \<Rightarrow> (Inl err, tick w)
          | None \<Rightarrow> (Inr (Suc p), tick w))),
      proc_Kill = (\<lambda>p w. tick w),
      proc_Wait = (\<lambda>p w. (wait_err cfg p, tick w)),
      ctx_err = (\<lambda>d w. if d \<le> clock w then Some DeadlineExceeded else None),
      mu_wait = (\<lambda>ctx w. (True, w))\<rparr>"

definition healthy :: fake_cfg where
  "healthy =
     \<lparr>send_err = (\<lambda>p. None), recv_err = (\<lambda>p. None),
      wait_err = (\<lambda>p. None), spawn_err = (\<lambda>p. None)\<rparr>"

definition start :: "(nat, fake_world) state" where
  "start = \<lparr>process = 1, world = \<lparr>clock = 1, inbox = []\<rparr>, trace = [EvSpawn 0]\<rparr>"

text \<open>
  Configurations: \<open>eof_once\<close> is the double whose handle 1 answers every Receive with EOF;
  \<open>bad_request\<close> refuses every Send with an application error; \<open>broken_send\<close> is the
  double whose handle 1 fails every Send on a broken pipe. \<open>reap_fails\<close> and
  \<open>spawn_fails\<close> are \<open>eof_once\<close> with a failing Wait, or a failing Spawn, on handle 1.
\<close>

definition eof_once :: fake_cfg where
  "eof_once = healthy\<lparr>recv_err := (\<lambda>p. if p = 1 then Some EOF else None)\<rparr>"

definition bad_request :: fake_cfg where
  "bad_request = healthy\<lparr>send_err := (\<lambda>p. Some ErrBadRequest)\<rparr>"

definition broken_send :: fake_cfg where
  "broken_send =
     healthy\<lparr>send_err := (\<lambda>p. if p = 1 then Some (ErrorString ''write |1: broken pipe'') else None)\<rparr>"

definition reap_fails :: fake_cfg where
  "reap_fails = eof_once\<lparr>wait_err := (\<lambda>p. if p = 1 then Some (ErrorString ''wait: no child processes'') else None)\<rparr>"

definition spawn_fails :: fake_cfg where
  "spawn_fails = eof_once\<lparr>spawn_err := (\<lambda>p. if p = 1 then Some (ErrorString ''fork: resource temporarily unavailable'') else None)\<rparr>"

text \<open>The payloads of the Send calls of a trace, in order.\<close>

fun sent_payloads :: "'p event list \<Rightarrow> bytes list" where
  "sent_payloads [] = []"
| "sent_payloads (EvSend p payload # evs) = payload # sent_payloads evs"
| "sent_payloads (ev # evs) = sent_payloads evs"

text \<open>
  \<open>contended\<close> is a double on which the context is done before the mutex is free:
  \<open>Lock\<close> fails for a context past its deadline.
\<close>

definition contended :: "fake_cfg \<Rightarrow> (nat, fake_world) env" where
  "contended cfg = (fake cfg)\<lparr>mu_wait := (\<lambda>ctx w. (False, w))\<rparr>"

section \<open>Properties\<close>

subsection \<open>The classification and the single steps\<close>

lemma errors_Is_EOF: "errors_Is err EOF \<longleftrightarrow> EOF \<in> set (cause_chain err)"
  by (induction err) auto

lemma strings_Contains_sublist: "strings_Contains s sub \<longleftrightarrow> sublist sub s"
  by (induction s) (auto simp: sublist_Cons_right)

lemma classification:
  "(errors_Is err EOF \<or> strings_Contains (Error err) ''file already closed'' \<or>
    strings_Contains (Error err) ''broken pipe'') = transient_transport_failure err"
  by (simp add: errors_Is_EOF strings_Contains_sublist transient_transport_failure_def)

lemma Lock_state:
  "Lock env ctx s = (r, s0) \<Longrightarrow>
     process s0 = process s \<and> trace s0 = trace s @ (case r of None \<Rightarrow> [EvLock] | Some err \<Rightarrow> [])"
  by (auto simp: Lock_def log_event_def split: prod.splits option.splits if_splits)

lemma Lock_Background: "fst (Lock env Background s) = None"
  by (simp add: Lock_def ctx_Err_def split: prod.splits)

lemma exchange_state:
  "exchange env ctx data s = (r, s1) \<Longrightarrow>
     process s1 = process s \<and>
     trace s1 = trace s @ EvSend (process s) data #
       (case fst (proc_Send env (process s) ctx data (world s)) of
          None \<Rightarrow> [EvReceive (process s)] | Some err \<Rightarrow> [])"
  by (auto simp: exchange_def process_Send_def process_Receive_def log_event_def
      split: prod.splits option.splits)

lemma body_done:
  "ctx_Err env ctx (world s) = Some cerr \<Longrightarrow>
     Exchange_body env ctx data s = (Return ([], Some cerr), s)"
  by (simp add: Exchange_body_def)

lemma body_success:
  "ctx_Err env ctx (world s) = None \<Longrightarrow> exchange env ctx data s = ((d, None), s1) \<Longrightarrow>
     Exchange_body env ctx data s = (Return (d, None), s1)"
  by (simp add: Exchange_body_def)

lemma body_other:
  "ctx_Err env ctx (world s) = None \<Longrightarrow> exchange env ctx data s = ((d, Some err), s1) \<Longrightarrow>
   \<not> transient_transport_failure err \<Longrightarrow>
     Exchange_body env ctx data s = (Return ([], Some err), s1)"
  by (simp add: Exchange_body_def classification)

lemma body_wait_failed:
  "ctx_Err env ctx (world s) = None \<Longrightarrow> exchange env ctx data s = ((d, Some err), s1) \<Longrightarrow>
   transient_transport_failure err \<Longrightarrow> process_Wait env s1 = (Some werr, s2) \<Longrightarrow>
     Exchange_body env ctx data s = (Return ([], Some werr), s2)"
  by (simp add: Exchange_body_def classification)

lemma body_spawn_failed:
  "ctx_Err env ctx (world s) = None \<Longrightarrow> exchange env ctx data s = ((d, Some err), s1) \<Longrightarrow>
   transient_transport_failure err \<Longrightarrow> process_Wait env s1 = (None, s2) \<Longrightarrow>
   process_Spawn env s2 = (Inl serr, s3) \<Longrightarrow>
     Exchange_body env ctx data s = (Return ([], Some (errors_Wrap serr ''respawn'')), s3)"
  by (simp add: Exchange_body_def classification)

lemma body_respawned:
  "ctx_Err env ctx (world s) = None \<Longrightarrow> exchange env ctx data s = ((d, Some err), s1) \<Longrightarrow>
   transient_transport_failure err \<Longrightarrow> process_Wait env s1 = (None, s2) \<Longrightarrow>
   process_Spawn env s2 = (Inr p, s3) \<Longrightarrow>
     Exchange_body env ctx data s = (Continue, s3\<lparr>process := p\<rparr>)"
  by (simp add: Exchange_body_def classification)

lemma loop_Return:
  "Exchange_body env ctx data s = (Return r, s1) \<Longrightarrow> Exchange_loop env ctx data s = Some (r, s1)"
  by (subst Exchange_loop.simps) simp

lemma loop_Continue:
  "Exchange_body env ctx data s = (Continue, s1) \<Longrightarrow>
     Exchange_loop env ctx data s = Exchange_loop env ctx data s1"
  by (subst Exchange_loop.simps) simp

lemma loop_top_loop:
  "loop_top env ctx data n s = Some sn \<Longrightarrow>
     Exchange_loop env ctx data s = Exchange_loop env ctx data sn"
proof (induction n arbitrary: s)
  case 0
  then show ?case by simp
next
  case (Suc n)
  then show ?case
    by (auto simp: loop_Continue split: prod.splits flow.splits)
qed

lemma loop_top_Suc:
  "loop_top env ctx data n s = Some sn \<Longrightarrow> Exchange_body env ctx data sn = (Continue, s1) \<Longrightarrow>
     loop_top env ctx data (Suc n) s = Some s1"
proof (induction n arbitrary: s)
  case 0
  then show ?case by simp
next
  case (Suc n)
  from Suc.prems(1) obtain s' where b: "Exchange_body env ctx data s = (Continue, s')"
    and t: "loop_top env ctx data n s' = Some sn"
    by (auto split: prod.splits flow.splits)
  from Suc.IH [OF t Suc.prems(2)] b show ?case by simp
qed

lemma Exchange_returns:
  "Lock env ctx s = (None, s0) \<Longrightarrow> loop_top env ctx data n s0 = Some sn \<Longrightarrow>
   Exchange_body env ctx data sn = (Return r, s1) \<Longrightarrow>
     Exchange env ctx data s = Some (r, release s1)"
  by (simp add: Exchange_def loop_top_loop loop_Return)

subsection \<open>Traces\<close>

lemma process_Wait_state:
  "process_Wait env s = (r, s2) \<Longrightarrow>
     process s2 = process s \<and> trace s2 = trace s @ [EvWait (process s)]"
  by (auto simp: process_Wait_def log_event_def split: prod.splits)

lemma process_Spawn_state:
  "process_Spawn env s = (r, s3) \<Longrightarrow>
     process s3 = process s \<and> trace s3 = trace s @ [EvSpawn (process s)]"
  by (auto simp: process_Spawn_def log_event_def split: prod.splits)

lemma exchange_respawn_events:
  "exchange env ctx data s = (r, s1) \<Longrightarrow>
     filter respawn_event (trace s1) = filter respawn_event (trace s)"
  by (drule exchange_state) (simp split: option.splits)

lemma exchange_lock_events:
  "exchange env ctx data s = (r, s1) \<Longrightarrow>
     filter lock_event (trace s1) = filter lock_event (trace s)"
  by (drule exchange_state) (simp split: option.splits)

lemma release_state:
  "process (release s) = process s \<and> world (release s) = world s \<and>
   trace (release s) = trace s @ [EvUnlock]"
  by (simp add: release_def log_event_def)

lemma body_transient_trace:
  assumes "ctx_Err env ctx (world s) = None"
    and "exchange env ctx data s = ((d, Some err), s1)"
    and "transient_transport_failure err"
  shows "prefix (trace s1 @ [EvWait (process s)]) (trace (snd (Exchange_body env ctx data s)))"
proof -
  obtain werr s2 where w: "process_Wait env s1 = (werr, s2)" by (cases "process_Wait env s1")
  obtain sp s3 where sp: "process_Spawn env s2 = (sp, s3)" by (cases "process_Spawn env s2")
  have p1: "process s1 = process s" using exchange_state [OF assms(2)] by simp
  have t2: "trace s2 = trace s1 @ [EvWait (process s)]"
    using process_Wait_state [OF w] p1 by simp
  have t3: "trace s3 = trace s2 @ [EvSpawn (process s2)]"
    using process_Spawn_state [OF sp] by simp
  show ?thesis
  proof (cases werr)
    case (Some e)
    with body_wait_failed [OF assms w [unfolded Some]] t2 show ?thesis by simp
  next
    case None
    show ?thesis
    proof (cases sp)
      case (Inl serr)
      with body_spawn_failed [OF assms w [unfolded None] sp [unfolded Inl]] t2 t3
      show ?thesis by simp
    next
      case (Inr p)
      with body_respawned [OF assms w [unfolded None] sp [unfolded Inr]] t2 t3
      show ?thesis by simp
    qed
  qed
qed

lemma body_lock_events:
  "Exchange_body env ctx data s = (f, s1) \<Longrightarrow>
     filter lock_event (trace s1) = filter lock_event (trace s)"
  unfolding Exchange_body_def
  by (auto split: option.splits prod.splits if_splits sum.splits
      dest!: exchange_lock_events process_Wait_state process_Spawn_state)

lemma loop_lock_events:
  assumes "Exchange_loop env ctx data s = Some y"
  shows "filter lock_event (trace (snd y)) = filter lock_event (trace s)"
proof (rule Exchange_loop.raw_induct
    [where P = "\<lambda>env ctx data s y. filter lock_event (trace (snd y)) = filter lock_event (trace s)",
      OF _ assms])
  fix loop :: "('a, 'b) env \<Rightarrow> Context \<Rightarrow> bytes \<Rightarrow> ('a, 'b) state \<Rightarrow> ((bytes \<times> error option) \<times> ('a, 'b) state) option"
  fix env ctx data s y
  assume IH: "\<And>env ctx data s y. loop env ctx data s = Some y \<Longrightarrow>
      filter lock_event (trace (snd y)) = filter lock_event (trace s)"
  assume step: "(case Exchange_body env ctx data s of
        (Return r, s1) \<Rightarrow> Some (r, s1)
      | (Continue, s1) \<Rightarrow> loop env ctx data s1) = Some y"
  obtain f s1 where b: "Exchange_body env ctx data s = (f, s1)"
    by (cases "Exchange_body env ctx data s")
  show "filter lock_event (trace (snd y)) = filter lock_event (trace s)"
  proof (cases f)
    case (Return r)
    with step b body_lock_events [OF b] show ?thesis by auto
  next
    case Continue
    with step b have "loop env ctx data s1 = Some y" by simp
    from IH [OF this] body_lock_events [OF b] show ?thesis by simp
  qed
qed

lemma sent_payloads_append:
  "sent_payloads (xs @ ys) = sent_payloads xs @ sent_payloads ys"
  by (induction xs rule: sent_payloads.induct) simp_all

lemma exchange_sent_payloads:
  "exchange env ctx data s = (r, s1) \<Longrightarrow>
     sent_payloads (trace s1) = sent_payloads (trace s) @ [data]"
  by (drule exchange_state) (simp add: sent_payloads_append split: option.splits)

lemma body_Continue_sent_payloads:
  "Exchange_body env ctx data s = (Continue, s1) \<Longrightarrow>
     sent_payloads (trace s1) = sent_payloads (trace s) @ [data]"
  unfolding Exchange_body_def
  by (auto simp: sent_payloads_append
      split: option.splits prod.splits if_splits sum.splits
      dest!: exchange_sent_payloads process_Wait_state process_Spawn_state)

lemma loop_top_sent_payloads:
  "loop_top env ctx data n s = Some sn \<Longrightarrow>
     sent_payloads (trace sn) = sent_payloads (trace s) @ replicate n data"
proof (induction n arbitrary: s)
  case 0
  then show ?case by simp
next
  case (Suc n)
  from Suc.prems obtain s' where b: "Exchange_body env ctx data s = (Continue, s')"
    and t: "loop_top env ctx data n s' = Some sn"
    by (auto split: prod.splits flow.splits)
  from Suc.IH [OF t] body_Continue_sent_payloads [OF b] show ?case
    by (simp add: replicate_append_same)
qed

lemma body_first_event:
  "ctx_Err env ctx (world s) = None \<Longrightarrow>
     prefix (trace s @ [EvSend (process s) data]) (trace (snd (Exchange_body env ctx data s)))"
  unfolding Exchange_body_def
  by (auto simp: prefix_def
      split: option.splits prod.splits if_splits sum.splits
      dest!: exchange_state process_Wait_state process_Spawn_state)

lemma body_sent_payloads:
  "ctx_Err env ctx (world s) = None \<Longrightarrow>
     sent_payloads (trace (snd (Exchange_body env ctx data s))) =
       sent_payloads (trace s) @ [data]"
  unfolding Exchange_body_def
  by (auto simp: sent_payloads_append
      split: option.splits prod.splits if_splits sum.splits
      dest!: exchange_sent_payloads process_Wait_state process_Spawn_state)

text \<open>The trace only grows along the loop, and every payload the loop sends is its argument.\<close>

lemma body_trace_prefix:
  "Exchange_body env ctx data s = (f, s1) \<Longrightarrow> prefix (trace s) (trace s1)"
  unfolding Exchange_body_def
  by (auto simp: prefix_def
      split: option.splits prod.splits if_splits sum.splits
      dest!: exchange_state process_Wait_state process_Spawn_state)

lemma body_all_sent_payloads:
  "Exchange_body env ctx data s = (f, s1) \<Longrightarrow>
     \<exists>k. sent_payloads (trace s1) = sent_payloads (trace s) @ replicate k data"
proof (cases "ctx_Err env ctx (world s)")
  case None
  assume "Exchange_body env ctx data s = (f, s1)"
  with body_sent_payloads [OF None, of data]
  have "sent_payloads (trace s1) = sent_payloads (trace s) @ replicate 1 data" by simp
  then show ?thesis by blast
next
  case (Some cerr)
  assume "Exchange_body env ctx data s = (f, s1)"
  with body_done [OF Some, of data]
  have "sent_payloads (trace s1) = sent_payloads (trace s) @ replicate 0 data" by simp
  then show ?thesis by blast
qed

lemma loop_trace_prefix:
  assumes "Exchange_loop env ctx data s = Some y"
  shows "prefix (trace s) (trace (snd y))"
proof (rule Exchange_loop.raw_induct
    [where P = "\<lambda>env ctx data s y. prefix (trace s) (trace (snd y))", OF _ assms])
  fix loop :: "('a, 'b) env \<Rightarrow> Context \<Rightarrow> bytes \<Rightarrow> ('a, 'b) state \<Rightarrow>
      ((bytes \<times> error option) \<times> ('a, 'b) state) option"
  fix env ctx data s y
  assume IH: "\<And>env ctx data s y. loop env ctx data s = Some y \<Longrightarrow>
      prefix (trace s) (trace (snd y))"
  assume step: "(case Exchange_body env ctx data s of
        (Return r, s1) \<Rightarrow> Some (r, s1)
      | (Continue, s1) \<Rightarrow> loop env ctx data s1) = Some y"
  obtain f s1 where b: "Exchange_body env ctx data s = (f, s1)"
    by (cases "Exchange_body env ctx data s")
  show "prefix (trace s) (trace (snd y))"
  proof (cases f)
    case (Return r)
    with step b body_trace_prefix [OF b] show ?thesis by auto
  next
    case Continue
    with step b have "loop env ctx data s1 = Some y" by simp
    from IH [OF this] body_trace_prefix [OF b] show ?thesis
      by (rule_tac prefix_order.trans)
  qed
qed

lemma loop_trace_extends_body:
  assumes "Exchange_loop env ctx data s = Some y"
  shows "prefix (trace (snd (Exchange_body env ctx data s))) (trace (snd y))"
proof -
  obtain f s1 where b: "Exchange_body env ctx data s = (f, s1)"
    by (cases "Exchange_body env ctx data s")
  show ?thesis
  proof (cases f)
    case (Return r)
    with assms b loop_Return [of env ctx data s r s1] show ?thesis by auto
  next
    case Continue
    with assms b loop_Continue [of env ctx data s s1]
    have "Exchange_loop env ctx data s1 = Some y" by simp
    from loop_trace_prefix [OF this] b show ?thesis by simp
  qed
qed

lemma loop_all_sent_payloads:
  assumes "Exchange_loop env ctx data s = Some y"
  shows "\<exists>k. sent_payloads (trace (snd y)) = sent_payloads (trace s) @ replicate k data"
proof (rule Exchange_loop.raw_induct
    [where P = "\<lambda>env ctx data s y.
        \<exists>k. sent_payloads (trace (snd y)) = sent_payloads (trace s) @ replicate k data",
      OF _ assms])
  fix loop :: "('a, 'b) env \<Rightarrow> Context \<Rightarrow> bytes \<Rightarrow> ('a, 'b) state \<Rightarrow>
      ((bytes \<times> error option) \<times> ('a, 'b) state) option"
  fix env ctx data s y
  assume IH: "\<And>env ctx data s y. loop env ctx data s = Some y \<Longrightarrow>
      \<exists>k. sent_payloads (trace (snd y)) = sent_payloads (trace s) @ replicate k data"
  assume step: "(case Exchange_body env ctx data s of
        (Return r, s1) \<Rightarrow> Some (r, s1)
      | (Continue, s1) \<Rightarrow> loop env ctx data s1) = Some y"
  obtain f s1 where b: "Exchange_body env ctx data s = (f, s1)"
    by (cases "Exchange_body env ctx data s")
  from body_all_sent_payloads [OF b] obtain j
    where j: "sent_payloads (trace s1) = sent_payloads (trace s) @ replicate j data" ..
  show "\<exists>k. sent_payloads (trace (snd y)) = sent_payloads (trace s) @ replicate k data"
  proof (cases f)
    case (Return r)
    with step b j show ?thesis by auto
  next
    case Continue
    with step b have "loop env ctx data s1 = Some y" by simp
    from IH [OF this] obtain k
      where "sent_payloads (trace (snd y)) = sent_payloads (trace s1) @ replicate k data" ..
    with j have "sent_payloads (trace (snd y)) =
        sent_payloads (trace s) @ replicate (j + k) data"
      by (simp add: replicate_add)
    then show ?thesis ..
  qed
qed

lemma Exchange_all_sent_payloads:
  assumes "Exchange env ctx data s = Some (r, s1)"
  shows "\<exists>k. sent_payloads (trace s1) = sent_payloads (trace s) @ replicate k data"
proof -
  obtain lr s0 where l: "Lock env ctx s = (lr, s0)" by (cases "Lock env ctx s")
  have t0: "sent_payloads (trace s0) = sent_payloads (trace s)"
    using Lock_state [OF l] by (cases lr) (simp_all add: sent_payloads_append)
  show ?thesis
  proof (cases lr)
    case (Some lerr)
    with assms l t0 have "sent_payloads (trace s1) = sent_payloads (trace s) @ replicate 0 data"
      by (simp add: Exchange_def)
    then show ?thesis ..
  next
    case None
    with assms l obtain s' where lp: "Exchange_loop env ctx data s0 = Some (r, s')"
      and s1: "s1 = release s'"
      by (auto simp: Exchange_def split: option.splits)
    from loop_all_sent_payloads [OF lp] obtain k
      where "sent_payloads (trace s') = sent_payloads (trace s0) @ replicate k data" by auto
    with t0 s1 have "sent_payloads (trace s1) = sent_payloads (trace s) @ replicate k data"
      by (simp add: release_state sent_payloads_append)
    then show ?thesis ..
  qed
qed

subsection \<open>Claims\<close>

lemmas fake_defs =
  Lock_def release_def exchange_def process_Send_def process_Receive_def process_Wait_def
  process_Spawn_def process_Kill_def log_event_def ctx_Err_def fake_def healthy_def
  start_def tick_def reply_def DeadlineExceeded_def ErrBadRequest_def eof_once_def
  bad_request_def broken_send_def reap_fails_def spawn_fails_def contended_def
  transient_transport_failure_def

text \<open>The state \<open>start\<close> is what \<open>Govern\<close> builds from the template handle 0.\<close>

lemma Govern_start: "Govern (fake healthy) 0 \<lparr>clock = 0, inbox = []\<rparr> = Inr start"
  by (simp add: Govern_def fake_defs)

text \<open>
  C1. When the context is not done, the first attempt fails with a transient transport
  failure, Wait on the old handle and Spawn both succeed, and the replacement answers
  \<open>Q\<close> with \<open>R2\<close>, then \<open>Exchange\<close> returns \<open>R2\<close> with a nil error; the Governor holds
  the new handle, and exactly one Wait and one Spawn were made, both on the old handle
  and in this order.
\<close>

theorem Exchange_recovers_from_transient_failure:
  assumes "Lock env ctx s = (None, s0)"
    and "ctx_Err env ctx (world s0) = None"
    and "exchange env ctx Q s0 = ((d, Some err), s1)"
    and "transient_transport_failure err"
    and "process_Wait env s1 = (None, s2)"
    and "process_Spawn env s2 = (Inr p, s3)"
    and "ctx_Err env ctx (world s3) = None"
    and "exchange env ctx Q (s3\<lparr>process := p\<rparr>) = ((R2, None), s4)"
  shows "Exchange env ctx Q s = Some ((R2, None), release s4) \<and>
         process (release s4) = p \<and>
         filter respawn_event (trace (release s4)) =
           filter respawn_event (trace s) @ [EvWait (process s), EvSpawn (process s)]"
proof -
  let ?s3 = "s3\<lparr>process := p\<rparr>"
  have b0: "Exchange_body env ctx Q s0 = (Continue, ?s3)"
    using assms(2-6) by (rule body_respawned)
  have top: "loop_top env ctx Q (Suc 0) s0 = Some ?s3"
    using b0 by simp
  have b1: "Exchange_body env ctx Q ?s3 = (Return (R2, None), s4)"
    using assms(7,8) by (simp add: body_success)
  have res: "Exchange env ctx Q s = Some ((R2, None), release s4)"
    using assms(1) top b1 by (rule Exchange_returns)
  have p4: "process s4 = p"
    using exchange_state [OF assms(8)] by simp
  have t0: "process s0 = process s" "trace s0 = trace s @ [EvLock]"
    using Lock_state [OF assms(1)] by simp_all
  have t1: "process s1 = process s" "filter respawn_event (trace s1) = filter respawn_event (trace s)"
    using exchange_state [OF assms(3)] exchange_respawn_events [OF assms(3)] t0 by simp_all
  have t2: "process s2 = process s" "trace s2 = trace s1 @ [EvWait (process s)]"
    using process_Wait_state [OF assms(5)] t1 by simp_all
  have t3: "trace s3 = trace s2 @ [EvSpawn (process s)]"
    using process_Spawn_state [OF assms(6)] t2 by simp
  have t4: "filter respawn_event (trace s4) = filter respawn_event (trace s3)"
    using exchange_respawn_events [OF assms(8)] by simp
  show ?thesis
    using res p4 t1 t2 t3 t4 by (simp add: release_state)
qed

text \<open>
  The run of C1 on the double \<open>eof_once\<close>, started as \<open>Govern\<close> leaves it: handle 1
  fails on EOF, handle 2 answers.
\<close>

theorem Exchange_recovers_from_transient_failure_witness:
  "Exchange (fake eof_once) (Ctx 100) ''Q'' start =
     Some ((''R2'', None),
       \<lparr>process = 2, world = \<lparr>clock = 7, inbox = ''Q''\<rparr>,
        trace = [EvSpawn 0, EvLock, EvSend 1 ''Q'', EvReceive 1, EvWait 1, EvSpawn 1,
                 EvSend 2 ''Q'', EvReceive 2, EvUnlock]\<rparr>) \<and>
   transient_transport_failure EOF"
  using Exchange_recovers_from_transient_failure
    [of "fake eof_once" "Ctx 100" start
        "\<lparr>process = 1, world = \<lparr>clock = 1, inbox = []\<rparr>, trace = [EvSpawn 0, EvLock]\<rparr>"
        "''Q''" "[]" EOF
        "\<lparr>process = 1, world = \<lparr>clock = 3, inbox = ''Q''\<rparr>,
          trace = [EvSpawn 0, EvLock, EvSend 1 ''Q'', EvReceive 1]\<rparr>"
        "\<lparr>process = 1, world = \<lparr>clock = 4, inbox = ''Q''\<rparr>,
          trace = [EvSpawn 0, EvLock, EvSend 1 ''Q'', EvReceive 1, EvWait 1]\<rparr>"
        2
        "\<lparr>process = 1, world = \<lparr>clock = 5, inbox = ''Q''\<rparr>,
          trace = [EvSpawn 0, EvLock, EvSend 1 ''Q'', EvReceive 1, EvWait 1, EvSpawn 1]\<rparr>"
        "''R2''"
        "\<lparr>process = 2, world = \<lparr>clock = 7, inbox = ''Q''\<rparr>,
          trace = [EvSpawn 0, EvLock, EvSend 1 ''Q'', EvReceive 1, EvWait 1, EvSpawn 1,
                   EvSend 2 ''Q'', EvReceive 2]\<rparr>"]
  by (simp add: fake_defs)

text \<open>
  C2. An attempt of iteration \<open>n\<close> fails with \<open>err\<close>. The loop takes the respawn path,
  which starts with Wait on the current handle, if and only if \<open>err\<close> has EOF in its
  cause chain, or its message contains "file already closed", or its message contains
  "broken pipe"; it takes the return of the error itself if and only if none of the
  three holds, and then \<open>Exchange\<close> returns that error.
\<close>

theorem Exchange_classifies_transport_failures:
  assumes "Lock env ctx s = (None, s0)"
    and "loop_top env ctx data n s0 = Some sn"
    and "ctx_Err env ctx (world sn) = None"
    and "exchange env ctx data sn = ((d, Some err), s1)"
  shows "(prefix (trace s1 @ [EvWait (process sn)]) (trace (snd (Exchange_body env ctx data sn)))
            \<longleftrightarrow> EOF \<in> set (cause_chain err) \<or>
                sublist ''file already closed'' (Error err) \<or>
                sublist ''broken pipe'' (Error err)) \<and>
         (Exchange_body env ctx data sn = (Return ([], Some err), s1)
            \<longleftrightarrow> \<not> (EOF \<in> set (cause_chain err) \<or>
                   sublist ''file already closed'' (Error err) \<or>
                   sublist ''broken pipe'' (Error err))) \<and>
         (\<not> transient_transport_failure err \<longrightarrow>
            Exchange env ctx data s = Some (([], Some err), release s1))"
proof (cases "transient_transport_failure err")
  case True
  have pre: "prefix (trace s1 @ [EvWait (process sn)]) (trace (snd (Exchange_body env ctx data sn)))"
    using assms(3,4) True by (rule body_transient_trace)
  have "Exchange_body env ctx data sn \<noteq> (Return ([], Some err), s1)"
  proof
    assume "Exchange_body env ctx data sn = (Return ([], Some err), s1)"
    with pre have "prefix (trace s1 @ [EvWait (process sn)]) (trace s1)" by simp
    then show False by (auto simp: prefix_def)
  qed
  with pre True show ?thesis
    by (simp add: transient_transport_failure_def)
next
  case False
  have b: "Exchange_body env ctx data sn = (Return ([], Some err), s1)"
    using assms(3,4) False by (rule body_other)
  have "\<not> prefix (trace s1 @ [EvWait (process sn)]) (trace s1)"
    by (auto simp: prefix_def)
  moreover have "Exchange env ctx data s = Some (([], Some err), release s1)"
    using assms(1,2) b by (rule Exchange_returns)
  ultimately show ?thesis
    using b False by (simp add: transient_transport_failure_def)
qed

text \<open>
  C2 on two doubles: a Send failing on a broken pipe is followed by Wait on handle 1; a
  Send refused with a bad request is returned.
\<close>

theorem Exchange_classifies_transport_failures_witness:
  "prefix ([EvSpawn 0, EvLock, EvSend 1 ''Q''] @ [EvWait 1])
     (trace (snd (Exchange_body (fake broken_send) Background ''Q''
        \<lparr>process = 1, world = \<lparr>clock = 1, inbox = []\<rparr>, trace = [EvSpawn 0, EvLock]\<rparr>))) \<and>
   sublist ''broken pipe'' ''write |1: broken pipe'' \<and>
   Exchange (fake bad_request) Background ''Q'' start =
     Some (([], Some ErrBadRequest),
       \<lparr>process = 1, world = \<lparr>clock = 2, inbox = ''Q''\<rparr>,
        trace = [EvSpawn 0, EvLock, EvSend 1 ''Q'', EvUnlock]\<rparr>) \<and>
   \<not> transient_transport_failure ErrBadRequest"
  using Exchange_classifies_transport_failures
    [of "fake broken_send" Background start
        "\<lparr>process = 1, world = \<lparr>clock = 1, inbox = []\<rparr>, trace = [EvSpawn 0, EvLock]\<rparr>"
        "''Q''" 0
        "\<lparr>process = 1, world = \<lparr>clock = 1, inbox = []\<rparr>, trace = [EvSpawn 0, EvLock]\<rparr>"
        "[]" "ErrorString ''write |1: broken pipe''"
        "\<lparr>process = 1, world = \<lparr>clock = 2, inbox = ''Q''\<rparr>,
          trace = [EvSpawn 0, EvLock, EvSend 1 ''Q'']\<rparr>"]
    Exchange_classifies_transport_failures
    [of "fake bad_request" Background start
        "\<lparr>process = 1, world = \<lparr>clock = 1, inbox = []\<rparr>, trace = [EvSpawn 0, EvLock]\<rparr>"
        "''Q''" 0
        "\<lparr>process = 1, world = \<lparr>clock = 1, inbox = []\<rparr>, trace = [EvSpawn 0, EvLock]\<rparr>"
        "[]" ErrBadRequest
        "\<lparr>process = 1, world = \<lparr>clock = 2, inbox = ''Q''\<rparr>,
          trace = [EvSpawn 0, EvLock, EvSend 1 ''Q'']\<rparr>"]
  by (simp add: fake_defs sublist_code)

text \<open>
  C3. On a transient transport failure in iteration \<open>n\<close>, the attempt itself makes no
  Wait and no Spawn, and Wait on the current handle comes first. When Wait fails,
  \<open>Exchange\<close> returns its error and the trace ends with that Wait: Spawn is not
  called. When Wait succeeds and Spawn fails, \<open>Exchange\<close> returns the error of Spawn
  wrapped with "respawn" and the handle is the old one. When both succeed, the handle is
  replaced and the loop goes on with iteration \<open>n + 1\<close>.
\<close>

theorem respawn_reaps_then_spawns:
  assumes "Lock env ctx s = (None, s0)"
    and "loop_top env ctx data n s0 = Some sn"
    and "ctx_Err env ctx (world sn) = None"
    and "exchange env ctx data sn = ((d, Some err), s1)"
    and "transient_transport_failure err"
    and "process_Wait env s1 = (werr, s2)"
  shows "filter respawn_event (trace s1) = filter respawn_event (trace sn) \<and>
         trace s2 = trace s1 @ [EvWait (process sn)] \<and>
         (case werr of
            Some e \<Rightarrow> Exchange env ctx data s = Some (([], Some e), release s2)
          | None \<Rightarrow>
             (case process_Spawn env s2 of
                (Inl serr, s3) \<Rightarrow>
                  trace s3 = trace s1 @ [EvWait (process sn), EvSpawn (process sn)] \<and>
                  Exchange env ctx data s =
                    Some (([], Some (errors_Wrap serr ''respawn'')), release s3) \<and>
                  process (release s3) = process sn
              | (Inr p, s3) \<Rightarrow>
                  trace s3 = trace s1 @ [EvWait (process sn), EvSpawn (process sn)] \<and>
                  loop_top env ctx data (Suc n) s0 = Some (s3\<lparr>process := p\<rparr>) \<and>
                  Exchange_loop env ctx data s0 =
                    Exchange_loop env ctx data (s3\<lparr>process := p\<rparr>)))"
proof -
  obtain sp s3 where spawn: "process_Spawn env s2 = (sp, s3)"
    by (cases "process_Spawn env s2")
  have p1: "process s1 = process sn"
    using exchange_state [OF assms(4)] by simp
  have r1: "filter respawn_event (trace s1) = filter respawn_event (trace sn)"
    using assms(4) by (rule exchange_respawn_events)
  have t2: "process s2 = process sn" "trace s2 = trace s1 @ [EvWait (process sn)]"
    using process_Wait_state [OF assms(6)] p1 by simp_all
  have t3: "process s3 = process sn"
    "trace s3 = trace s1 @ [EvWait (process sn), EvSpawn (process sn)]"
    using process_Spawn_state [OF spawn] t2 by simp_all
  show ?thesis
  proof (cases werr)
    case (Some e)
    have "Exchange_body env ctx data sn = (Return ([], Some e), s2)"
      using assms(3-5) assms(6) [unfolded Some] by (rule body_wait_failed)
    with assms(1,2) have "Exchange env ctx data s = Some (([], Some e), release s2)"
      by (rule Exchange_returns)
    with Some r1 t2 show ?thesis by simp
  next
    case None
    note w = assms(6) [unfolded None]
    show ?thesis
    proof (cases sp)
      case (Inl serr)
      have "Exchange_body env ctx data sn =
          (Return ([], Some (errors_Wrap serr ''respawn'')), s3)"
        using assms(3-5) w spawn [unfolded Inl] by (rule body_spawn_failed)
      with assms(1,2) have "Exchange env ctx data s =
          Some (([], Some (errors_Wrap serr ''respawn'')), release s3)"
        by (rule Exchange_returns)
      with None Inl spawn r1 t2 t3 show ?thesis by (simp add: release_state)
    next
      case (Inr p)
      have b: "Exchange_body env ctx data sn = (Continue, s3\<lparr>process := p\<rparr>)"
        using assms(3-5) w spawn [unfolded Inr] by (rule body_respawned)
      have top: "loop_top env ctx data (Suc n) s0 = Some (s3\<lparr>process := p\<rparr>)"
        using assms(2) b by (rule loop_top_Suc)
      from top have "Exchange_loop env ctx data s0 = Exchange_loop env ctx data (s3\<lparr>process := p\<rparr>)"
        by (rule loop_top_loop)
      with top None Inr spawn r1 t2 t3 show ?thesis by simp
    qed
  qed
qed

text \<open>
  C3 on three doubles whose handle 1 fails on EOF: Wait fails; Spawn fails; both
  succeed.
\<close>

theorem respawn_reaps_then_spawns_witness:
  "Exchange (fake reap_fails) Background ''Q'' start =
     Some (([], Some (ErrorString ''wait: no child processes'')),
       \<lparr>process = 1, world = \<lparr>clock = 4, inbox = ''Q''\<rparr>,
        trace = [EvSpawn 0, EvLock, EvSend 1 ''Q'', EvReceive 1, EvWait 1, EvUnlock]\<rparr>) \<and>
   Exchange (fake spawn_fails) Background ''Q'' start =
     Some (([], Some (Wrapped ''respawn: fork: resource temporarily unavailable''
                        (ErrorString ''fork: resource temporarily unavailable''))),
       \<lparr>process = 1, world = \<lparr>clock = 5, inbox = ''Q''\<rparr>,
        trace = [EvSpawn 0, EvLock, EvSend 1 ''Q'', EvReceive 1, EvWait 1, EvSpawn 1,
                 EvUnlock]\<rparr>) \<and>
   loop_top (fake eof_once) Background ''Q'' 1
       \<lparr>process = 1, world = \<lparr>clock = 1, inbox = []\<rparr>, trace = [EvSpawn 0, EvLock]\<rparr> =
     Some \<lparr>process = 2, world = \<lparr>clock = 5, inbox = ''Q''\<rparr>,
           trace = [EvSpawn 0, EvLock, EvSend 1 ''Q'', EvReceive 1, EvWait 1, EvSpawn 1]\<rparr>"
  using respawn_reaps_then_spawns
    [of "fake reap_fails" Background start
        "\<lparr>process = 1, world = \<lparr>clock = 1, inbox = []\<rparr>, trace = [EvSpawn 0, EvLock]\<rparr>"
        "''Q''" 0
        "\<lparr>process = 1, world = \<lparr>clock = 1, inbox = []\<rparr>, trace = [EvSpawn 0, EvLock]\<rparr>"
        "[]" EOF
        "\<lparr>process = 1, world = \<lparr>clock = 3, inbox = ''Q''\<rparr>,
          trace = [EvSpawn 0, EvLock, EvSend 1 ''Q'', EvReceive 1]\<rparr>"
        "Some (ErrorString ''wait: no child processes'')"
        "\<lparr>process = 1, world = \<lparr>clock = 4, inbox = ''Q''\<rparr>,
          trace = [EvSpawn 0, EvLock, EvSend 1 ''Q'', EvReceive 1, EvWait 1]\<rparr>"]
    respawn_reaps_then_spawns
    [of "fake spawn_fails" Background start
        "\<lparr>process = 1, world = \<lparr>clock = 1, inbox = []\<rparr>, trace = [EvSpawn 0, EvLock]\<rparr>"
        "''Q''" 0
        "\<lparr>process = 1, world = \<lparr>clock = 1, inbox = []\<rparr>, trace = [EvSpawn 0, EvLock]\<rparr>"
        "[]" EOF
        "\<lparr>process = 1, world = \<lparr>clock = 3, inbox = ''Q''\<rparr>,
          trace = [EvSpawn 0, EvLock, EvSend 1 ''Q'', EvReceive 1]\<rparr>"
        None
        "\<lparr>process = 1, world = \<lparr>clock = 4, inbox = ''Q''\<rparr>,
          trace = [EvSpawn 0, EvLock, EvSend 1 ''Q'', EvReceive 1, EvWait 1]\<rparr>"]
    respawn_reaps_then_spawns
    [of "fake eof_once" Background start
        "\<lparr>process = 1, world = \<lparr>clock = 1, inbox = []\<rparr>, trace = [EvSpawn 0, EvLock]\<rparr>"
        "''Q''" 0
        "\<lparr>process = 1, world = \<lparr>clock = 1, inbox = []\<rparr>, trace = [EvSpawn 0, EvLock]\<rparr>"
        "[]" EOF
        "\<lparr>process = 1, world = \<lparr>clock = 3, inbox = ''Q''\<rparr>,
          trace = [EvSpawn 0, EvLock, EvSend 1 ''Q'', EvReceive 1]\<rparr>"
        None
        "\<lparr>process = 1, world = \<lparr>clock = 4, inbox = ''Q''\<rparr>,
          trace = [EvSpawn 0, EvLock, EvSend 1 ''Q'', EvReceive 1, EvWait 1]\<rparr>"]
  by (simp add: fake_defs errors_Wrap_def)

text \<open>
  The sentence of C4 fails on the double \<open>bad_request\<close>: the error of Send is not a
  transient transport failure, and \<open>Exchange\<close> returns it as it is. Its message has no
  "exchange" label, and it is not the error that wrapping with "exchange" gives.
\<close>

theorem Exchange_other_error_wrapped_counterexample:
  "Exchange (fake bad_request) Background ''Q'' start =
     Some (([], Some ErrBadRequest),
       \<lparr>process = 1, world = \<lparr>clock = 2, inbox = ''Q''\<rparr>,
        trace = [EvSpawn 0, EvLock, EvSend 1 ''Q'', EvUnlock]\<rparr>) \<and>
   \<not> transient_transport_failure ErrBadRequest \<and>
   ErrBadRequest \<noteq> errors_Wrap ErrBadRequest ''exchange'' \<and>
   Error ErrBadRequest = ''bad request'' \<and>
   Error (errors_Wrap ErrBadRequest ''exchange'') = ''exchange: bad request''"
  using Exchange_returns
    [of "fake bad_request" Background start
        "\<lparr>process = 1, world = \<lparr>clock = 1, inbox = []\<rparr>, trace = [EvSpawn 0, EvLock]\<rparr>"
        "''Q''" 0
        "\<lparr>process = 1, world = \<lparr>clock = 1, inbox = []\<rparr>, trace = [EvSpawn 0, EvLock]\<rparr>"
        "([], Some ErrBadRequest)"
        "\<lparr>process = 1, world = \<lparr>clock = 2, inbox = ''Q''\<rparr>,
          trace = [EvSpawn 0, EvLock, EvSend 1 ''Q'']\<rparr>"]
  by (simp add: fake_defs Exchange_body_def errors_Wrap_def sublist_code)

text \<open>
  C4, amended. An error of an attempt that is not a transient transport failure is
  returned by \<open>Exchange\<close> itself, with no wrapping: the caller gets the very error, so
  its message and its cause chain are the ones the process gave. (The word "exchange"
  appears only in the line that the source logs.)
\<close>

theorem Exchange_returns_other_error_itself:
  assumes "Lock env ctx s = (None, s0)"
    and "loop_top env ctx data n s0 = Some sn"
    and "ctx_Err env ctx (world sn) = None"
    and "exchange env ctx data sn = ((d, Some err), s1)"
    and "\<not> transient_transport_failure err"
  shows "map_option fst (Exchange env ctx data s) = Some ([], Some err)"
proof -
  have "Exchange_body env ctx data sn = (Return ([], Some err), s1)"
    using assms(3-5) by (rule body_other)
  with assms(1,2) have "Exchange env ctx data s = Some (([], Some err), release s1)"
    by (rule Exchange_returns)
  then show ?thesis by simp
qed

text \<open>C4, amended, on the double \<open>bad_request\<close>.\<close>

theorem Exchange_returns_other_error_itself_witness:
  "map_option fst (Exchange (fake bad_request) Background ''Q'' start) =
     Some ([], Some (ErrorString ''bad request''))"
  using Exchange_returns_other_error_itself
    [of "fake bad_request" Background start
        "\<lparr>process = 1, world = \<lparr>clock = 1, inbox = []\<rparr>, trace = [EvSpawn 0, EvLock]\<rparr>"
        "''Q''" 0
        "\<lparr>process = 1, world = \<lparr>clock = 1, inbox = []\<rparr>, trace = [EvSpawn 0, EvLock]\<rparr>"
        "[]" ErrBadRequest
        "\<lparr>process = 1, world = \<lparr>clock = 2, inbox = ''Q''\<rparr>,
          trace = [EvSpawn 0, EvLock, EvSend 1 ''Q'']\<rparr>"]
  by (simp add: fake_defs sublist_code)

text \<open>
  C5. When an attempt of iteration \<open>n\<close> fails with an error that is not a transient
  transport failure, \<open>Exchange\<close> returns after that attempt: the handle is the one of
  that iteration and no Wait and no Spawn is added to the trace. For the first
  iteration, the handle and the Wait and Spawn calls are those from before the call.
\<close>

theorem no_respawn_on_other_error:
  assumes "Lock env ctx s = (None, s0)"
    and "loop_top env ctx data n s0 = Some sn"
    and "ctx_Err env ctx (world sn) = None"
    and "exchange env ctx data sn = ((d, Some err), s1)"
    and "\<not> transient_transport_failure err"
  shows "Exchange env ctx data s = Some (([], Some err), release s1) \<and>
         process (release s1) = process sn \<and>
         filter respawn_event (trace (release s1)) = filter respawn_event (trace sn) \<and>
         (n = 0 \<longrightarrow>
            process (release s1) = process s \<and>
            filter respawn_event (trace (release s1)) = filter respawn_event (trace s))"
proof -
  have "Exchange_body env ctx data sn = (Return ([], Some err), s1)"
    using assms(3-5) by (rule body_other)
  with assms(1,2) have res: "Exchange env ctx data s = Some (([], Some err), release s1)"
    by (rule Exchange_returns)
  have p1: "process (release s1) = process sn"
    using exchange_state [OF assms(4)] by (simp add: release_state)
  have r1: "filter respawn_event (trace (release s1)) = filter respawn_event (trace sn)"
    using exchange_respawn_events [OF assms(4)] by (simp add: release_state)
  have "n = 0 \<Longrightarrow> process sn = process s \<and>
      filter respawn_event (trace sn) = filter respawn_event (trace s)"
    using assms(2) Lock_state [OF assms(1)] by simp
  with res p1 r1 show ?thesis by auto
qed

text \<open>
  C5 on the double \<open>bad_request\<close>, governed from the template: the one Spawn of the
  trace is that of \<open>Govern\<close>.
\<close>

theorem no_respawn_on_other_error_witness:
  "Govern (fake bad_request) 0 \<lparr>clock = 0, inbox = []\<rparr> = Inr start \<and>
   length (filter respawn_event (trace start)) = 1 \<and>
   Exchange (fake bad_request) Background ''Q'' start =
     Some (([], Some ErrBadRequest),
       \<lparr>process = 1, world = \<lparr>clock = 2, inbox = ''Q''\<rparr>,
        trace = [EvSpawn 0, EvLock, EvSend 1 ''Q'', EvUnlock]\<rparr>)"
  using no_respawn_on_other_error
    [of "fake bad_request" Background start
        "\<lparr>process = 1, world = \<lparr>clock = 1, inbox = []\<rparr>, trace = [EvSpawn 0, EvLock]\<rparr>"
        "''Q''" 0
        "\<lparr>process = 1, world = \<lparr>clock = 1, inbox = []\<rparr>, trace = [EvSpawn 0, EvLock]\<rparr>"
        "[]" ErrBadRequest
        "\<lparr>process = 1, world = \<lparr>clock = 2, inbox = ''Q''\<rparr>,
          trace = [EvSpawn 0, EvLock, EvSend 1 ''Q'']\<rparr>"]
  by (simp add: fake_defs Govern_def sublist_code)

text \<open>
  C6. When the context is done at the top of iteration \<open>n\<close> (the first one included),
  \<open>Exchange\<close> returns the context's error itself, and nothing but the release follows
  in the trace: no Send, no Wait, no Spawn; the handle and the world stay as they are.
\<close>

theorem Exchange_returns_context_error:
  assumes "Lock env ctx s = (None, s0)"
    and "loop_top env ctx data n s0 = Some sn"
    and "ctx_Err env ctx (world sn) = Some cerr"
  shows "Exchange env ctx data s = Some (([], Some cerr), release sn) \<and>
         process (release sn) = process sn \<and>
         world (release sn) = world sn \<and>
         trace (release sn) = trace sn @ [EvUnlock]"
proof -
  have "Exchange_body env ctx data sn = (Return ([], Some cerr), sn)"
    using assms(3) by (rule body_done)
  with assms(1,2) have "Exchange env ctx data s = Some (([], Some cerr), release sn)"
    by (rule Exchange_returns)
  then show ?thesis by (simp add: release_state)
qed

text \<open>
  C6 on two runs: a context already done when the lock is acquired, and a deadline that
  passes during the respawn of the first iteration.
\<close>

theorem Exchange_returns_context_error_witness:
  "Exchange (fake healthy) (Ctx 0) ''Q'' start =
     Some (([], Some DeadlineExceeded),
       \<lparr>process = 1, world = \<lparr>clock = 1, inbox = []\<rparr>,
        trace = [EvSpawn 0, EvLock, EvUnlock]\<rparr>) \<and>
   Exchange (fake eof_once) (Ctx 5) ''Q'' start =
     Some (([], Some DeadlineExceeded),
       \<lparr>process = 2, world = \<lparr>clock = 5, inbox = ''Q''\<rparr>,
        trace = [EvSpawn 0, EvLock, EvSend 1 ''Q'', EvReceive 1, EvWait 1, EvSpawn 1,
                 EvUnlock]\<rparr>)"
  using Exchange_returns_context_error
    [of "fake healthy" "Ctx 0" start
        "\<lparr>process = 1, world = \<lparr>clock = 1, inbox = []\<rparr>, trace = [EvSpawn 0, EvLock]\<rparr>"
        "''Q''" 0
        "\<lparr>process = 1, world = \<lparr>clock = 1, inbox = []\<rparr>, trace = [EvSpawn 0, EvLock]\<rparr>"
        DeadlineExceeded]
    Exchange_returns_context_error
    [of "fake eof_once" "Ctx 5" start
        "\<lparr>process = 1, world = \<lparr>clock = 1, inbox = []\<rparr>, trace = [EvSpawn 0, EvLock]\<rparr>"
        "''Q''" 1
        "\<lparr>process = 2, world = \<lparr>clock = 5, inbox = ''Q''\<rparr>,
          trace = [EvSpawn 0, EvLock, EvSend 1 ''Q'', EvReceive 1, EvWait 1, EvSpawn 1]\<rparr>"
        DeadlineExceeded]
  by (simp add: fake_defs Exchange_body_def)

text \<open>
  C7. \<open>ExchangeDirect\<close> returns the error of \<open>Lock\<close> when the lock is not acquired, with
  no call made on the process. Otherwise it makes one attempt on the current handle: one
  Send and, when that Send succeeds, one Receive, between the acquisition and the
  release. It makes no Wait and no Spawn, keeps the handle, and returns what the attempt
  returned: the error of Send, or the pair that Receive gave.
\<close>

theorem ExchangeDirect_single_attempt:
  "(case Lock env ctx s of
      (Some lerr, s0) \<Rightarrow>
        ExchangeDirect env ctx data s = (([], Some lerr), s0) \<and>
        process s0 = process s \<and> trace s0 = trace s
    | (None, s0) \<Rightarrow>
        (case proc_Send env (process s) ctx data (world s0) of
           (Some err, w1) \<Rightarrow>
             ExchangeDirect env ctx data s =
               (([], Some err),
                \<lparr>process = process s, world = w1,
                 trace = trace s @ [EvLock, EvSend (process s) data, EvUnlock]\<rparr>)
         | (None, w1) \<Rightarrow>
             (case proc_Receive env (process s) ctx w1 of
                (r, w2) \<Rightarrow>
                  ExchangeDirect env ctx data s =
                    (r,
                     \<lparr>process = process s, world = w2,
                      trace = trace s @
                        [EvLock, EvSend (process s) data, EvReceive (process s), EvUnlock]\<rparr>))))"
  by (auto simp: ExchangeDirect_def Lock_def exchange_def process_Send_def
      process_Receive_def release_def log_event_def
      split: prod.splits option.splits if_splits)

text \<open>
  C7 on three runs: Receive fails on EOF and no respawn follows; Send is refused and
  Receive is not called; the lock is not acquired.
\<close>

theorem ExchangeDirect_single_attempt_witness:
  "ExchangeDirect (fake eof_once) Background ''Q'' start =
     (([], Some EOF),
      \<lparr>process = 1, world = \<lparr>clock = 3, inbox = ''Q''\<rparr>,
       trace = [EvSpawn 0, EvLock, EvSend 1 ''Q'', EvReceive 1, EvUnlock]\<rparr>) \<and>
   ExchangeDirect (fake bad_request) Background ''Q'' start =
     (([], Some ErrBadRequest),
      \<lparr>process = 1, world = \<lparr>clock = 2, inbox = ''Q''\<rparr>,
       trace = [EvSpawn 0, EvLock, EvSend 1 ''Q'', EvUnlock]\<rparr>) \<and>
   ExchangeDirect (contended healthy) (Ctx 0) ''Q'' start =
     (([], Some DeadlineExceeded), start)"
  using ExchangeDirect_single_attempt
      [where env = "fake eof_once" and ctx = Background and s = start and data = "''Q''"]
    ExchangeDirect_single_attempt
      [where env = "fake bad_request" and ctx = Background and s = start and data = "''Q''"]
    ExchangeDirect_single_attempt
      [where env = "contended healthy" and ctx = "Ctx 0" and s = start and data = "''Q''"]
  by (simp add: fake_defs)

text \<open>
  C8. In \<open>Exchange\<close> (whenever it returns), \<open>ExchangeDirect\<close>, \<open>Kill\<close> and \<open>Wait\<close>, the
  lock events added to the trace are one acquisition followed by one release when
  \<open>Lock\<close> succeeds, and none when it fails. \<open>Kill\<close> and \<open>Wait\<close> lock with the
  background context, so their acquisition never fails and they always return.
\<close>

theorem lock_and_release_are_paired:
  "(Exchange env ctx data s = Some (r, s1) \<longrightarrow>
      filter lock_event (trace s1) =
        filter lock_event (trace s) @
          (case fst (Lock env ctx s) of None \<Rightarrow> [EvLock, EvUnlock] | Some lerr \<Rightarrow> [])) \<and>
   filter lock_event (trace (snd (ExchangeDirect env ctx data s))) =
     filter lock_event (trace s) @
       (case fst (Lock env ctx s) of None \<Rightarrow> [EvLock, EvUnlock] | Some lerr \<Rightarrow> []) \<and>
   map_option (\<lambda>s2. filter lock_event (trace s2)) (Kill env s) =
     Some (filter lock_event (trace s) @ [EvLock, EvUnlock]) \<and>
   map_option (\<lambda>(werr, s3). filter lock_event (trace s3)) (Wait env s) =
     Some (filter lock_event (trace s) @ [EvLock, EvUnlock])"
proof (intro conjI impI)
  obtain lr s0 where l: "Lock env ctx s = (lr, s0)" by (cases "Lock env ctx s")
  note t0 = Lock_state [OF l]
  {
    assume ex: "Exchange env ctx data s = Some (r, s1)"
    show "filter lock_event (trace s1) =
        filter lock_event (trace s) @
          (case fst (Lock env ctx s) of None \<Rightarrow> [EvLock, EvUnlock] | Some lerr \<Rightarrow> [])"
    proof (cases lr)
      case (Some lerr)
      with ex l t0 show ?thesis by (simp add: Exchange_def)
    next
      case None
      with ex l obtain s' where lp: "Exchange_loop env ctx data s0 = Some (r, s')"
        and s1: "s1 = release s'"
        by (auto simp: Exchange_def split: option.splits)
      from loop_lock_events [OF lp] have "filter lock_event (trace s') = filter lock_event (trace s0)"
        by simp
      with None l t0 s1 show ?thesis by (simp add: release_state)
    qed
  }
  show "filter lock_event (trace (snd (ExchangeDirect env ctx data s))) =
     filter lock_event (trace s) @
       (case fst (Lock env ctx s) of None \<Rightarrow> [EvLock, EvUnlock] | Some lerr \<Rightarrow> [])"
  proof (cases lr)
    case (Some lerr)
    with l t0 show ?thesis by (simp add: ExchangeDirect_def)
  next
    case None
    obtain r' s' where e: "exchange env ctx data s0 = (r', s')"
      by (cases "exchange env ctx data s0")
    from exchange_lock_events [OF e] None l t0 e show ?thesis
      by (simp add: ExchangeDirect_def release_state)
  qed
  obtain b0 where lb: "Lock env Background s = (None, b0)"
    using Lock_Background [of env s] by (cases "Lock env Background s") simp
  note tb = Lock_state [OF lb]
  show "map_option (\<lambda>s2. filter lock_event (trace s2)) (Kill env s) =
     Some (filter lock_event (trace s) @ [EvLock, EvUnlock])"
    using lb tb by (simp add: Kill_def release_state process_Kill_def log_event_def)
  obtain werr s' where w: "process_Wait env b0 = (werr, s')"
    by (cases "process_Wait env b0")
  show "map_option (\<lambda>(werr, s3). filter lock_event (trace s3)) (Wait env s) =
     Some (filter lock_event (trace s) @ [EvLock, EvUnlock])"
    using lb tb w process_Wait_state [OF w]
    by (cases werr) (simp_all add: Wait_def release_state)
qed

text \<open>
  C8 on an error exit of \<open>Exchange\<close> (Wait fails during the respawn), on a lock that is
  not acquired, and on \<open>Kill\<close> and \<open>Wait\<close>.
\<close>

theorem lock_and_release_are_paired_witness:
  "Exchange (fake reap_fails) Background ''Q'' start =
     Some (([], Some (ErrorString ''wait: no child processes'')),
       \<lparr>process = 1, world = \<lparr>clock = 4, inbox = ''Q''\<rparr>,
        trace = [EvSpawn 0, EvLock, EvSend 1 ''Q'', EvReceive 1, EvWait 1, EvUnlock]\<rparr>) \<and>
   filter lock_event [EvSpawn 0, EvLock, EvSend 1 ''Q'', EvReceive 1, EvWait 1, EvUnlock] =
     filter lock_event (trace start) @ [EvLock, EvUnlock] \<and>
   Exchange (contended healthy) (Ctx 0) ''Q'' start = Some (([], Some DeadlineExceeded), start) \<and>
   filter lock_event (trace (snd (ExchangeDirect (contended healthy) (Ctx 0) ''Q'' start))) =
     filter lock_event (trace start) \<and>
   map_option (\<lambda>s2. filter lock_event (trace s2)) (Kill (fake healthy) start) =
     Some [EvLock, EvUnlock] \<and>
   map_option (\<lambda>(werr, s3). filter lock_event (trace s3)) (Wait (fake reap_fails) start) =
     Some [EvLock, EvUnlock]"
proof -
  have run: "Exchange (fake reap_fails) Background ''Q'' start =
     Some (([], Some (ErrorString ''wait: no child processes'')),
       \<lparr>process = 1, world = \<lparr>clock = 4, inbox = ''Q''\<rparr>,
        trace = [EvSpawn 0, EvLock, EvSend 1 ''Q'', EvReceive 1, EvWait 1, EvUnlock]\<rparr>)"
    using Exchange_returns
      [of "fake reap_fails" Background start
          "\<lparr>process = 1, world = \<lparr>clock = 1, inbox = []\<rparr>, trace = [EvSpawn 0, EvLock]\<rparr>"
          "''Q''" 0
          "\<lparr>process = 1, world = \<lparr>clock = 1, inbox = []\<rparr>, trace = [EvSpawn 0, EvLock]\<rparr>"
          "([], Some (ErrorString ''wait: no child processes''))"
          "\<lparr>process = 1, world = \<lparr>clock = 4, inbox = ''Q''\<rparr>,
            trace = [EvSpawn 0, EvLock, EvSend 1 ''Q'', EvReceive 1, EvWait 1]\<rparr>"]
    by (simp add: fake_defs Exchange_body_def)
  have refused: "Exchange (contended healthy) (Ctx 0) ''Q'' start =
      Some (([], Some DeadlineExceeded), start)"
    by (simp add: Exchange_def fake_defs)
  show ?thesis
    using run refused
      lock_and_release_are_paired
        [where env = "fake reap_fails" and ctx = Background and s = start and data = "''Q''"
           and r = "([], Some (ErrorString ''wait: no child processes''))"
           and ?s1.0 = "\<lparr>process = 1, world = \<lparr>clock = 4, inbox = ''Q''\<rparr>,
             trace = [EvSpawn 0, EvLock, EvSend 1 ''Q'', EvReceive 1, EvWait 1, EvUnlock]\<rparr>"]
      lock_and_release_are_paired
        [where env = "contended healthy" and ctx = "Ctx 0" and s = start and data = "''Q''"
           and r = "([], Some DeadlineExceeded)" and ?s1.0 = start]
      lock_and_release_are_paired
        [where env = "fake healthy" and ctx = Background and s = start and data = "''Q''"]
    by (simp add: fake_defs)
qed

text \<open>
  C9. Whenever \<open>Exchange\<close> returns, the payloads of all the Send calls it made are the
  caller's payload, however many attempts there were. At the top of iteration \<open>n\<close>
  with the context not done, the loop goes on with the same payload, the attempt begins
  with Send of the caller's payload on the handle of that iteration, and \<open>n + 1\<close> such
  payloads have then been sent; when \<open>Exchange\<close> returns, its trace holds that Send and
  those payloads. The bytes that an attempt returns never replace the payload.
\<close>

theorem retry_sends_original_payload:
  "(Exchange env ctx data s = Some (r, s1) \<longrightarrow>
      sent_payloads (trace s1) =
        sent_payloads (trace s) @
          replicate (length (sent_payloads (trace s1)) - length (sent_payloads (trace s))) data) \<and>
   (Lock env ctx s = (None, s0) \<and> loop_top env ctx data n s0 = Some sn \<and>
    ctx_Err env ctx (world sn) = None \<longrightarrow>
      Exchange_loop env ctx data s0 = Exchange_loop env ctx data sn \<and>
      prefix (trace sn @ [EvSend (process sn) data])
        (trace (snd (Exchange_body env ctx data sn))) \<and>
      sent_payloads (trace (snd (Exchange_body env ctx data sn))) =
        sent_payloads (trace s) @ replicate (Suc n) data \<and>
      (Exchange env ctx data s = Some (r, s1) \<longrightarrow>
         prefix (trace sn @ [EvSend (process sn) data]) (trace s1) \<and>
         prefix (sent_payloads (trace s) @ replicate (Suc n) data) (sent_payloads (trace s1))))"
proof (intro conjI impI)
  assume ex: "Exchange env ctx data s = Some (r, s1)"
  from Exchange_all_sent_payloads [OF ex] obtain k
    where k: "sent_payloads (trace s1) = sent_payloads (trace s) @ replicate k data" ..
  then have "length (sent_payloads (trace s1)) - length (sent_payloads (trace s)) = k"
    by simp
  with k show "sent_payloads (trace s1) =
      sent_payloads (trace s) @
        replicate (length (sent_payloads (trace s1)) - length (sent_payloads (trace s))) data"
    by simp
next
  assume h: "Lock env ctx s = (None, s0) \<and> loop_top env ctx data n s0 = Some sn \<and>
    ctx_Err env ctx (world sn) = None"
  then have l: "Lock env ctx s = (None, s0)" and top: "loop_top env ctx data n s0 = Some sn"
    and c: "ctx_Err env ctx (world sn) = None"
    by simp_all
  let ?b = "snd (Exchange_body env ctx data sn)"
  show same: "Exchange_loop env ctx data s0 = Exchange_loop env ctx data sn"
    using top by (rule loop_top_loop)
  show first: "prefix (trace sn @ [EvSend (process sn) data]) (trace ?b)"
    using c by (rule body_first_event)
  have "sent_payloads (trace s0) = sent_payloads (trace s)"
    using Lock_state [OF l] by (simp add: sent_payloads_append)
  moreover have "sent_payloads (trace sn) = sent_payloads (trace s0) @ replicate n data"
    using top by (rule loop_top_sent_payloads)
  moreover have "sent_payloads (trace ?b) = sent_payloads (trace sn) @ [data]"
    using c by (rule body_sent_payloads)
  ultimately show sent: "sent_payloads (trace ?b) =
      sent_payloads (trace s) @ replicate (Suc n) data"
    by (simp add: replicate_append_same)
  {
    assume ex: "Exchange env ctx data s = Some (r, s1)"
    with l obtain s' where lp: "Exchange_loop env ctx data s0 = Some (r, s')"
      and s1: "s1 = release s'"
      by (auto simp: Exchange_def split: option.splits)
    from lp same have "Exchange_loop env ctx data sn = Some (r, s')" by simp
    from loop_trace_extends_body [OF this] have ext: "prefix (trace ?b) (trace s')" by simp
    then have ext1: "prefix (trace ?b) (trace s1)"
      using s1 by (simp add: release_state)
    from first ext1 show "prefix (trace sn @ [EvSend (process sn) data]) (trace s1)"
      by (rule prefix_order.trans)
    from ext1 obtain zs where "trace s1 = trace ?b @ zs" by (auto simp: prefix_def)
    then have "sent_payloads (trace s1) = sent_payloads (trace ?b) @ sent_payloads zs"
      by (simp add: sent_payloads_append)
    with sent show "prefix (sent_payloads (trace s) @ replicate (Suc n) data)
        (sent_payloads (trace s1))"
      by (simp add: prefix_def)
  }
qed

text \<open>
  C9 on the double \<open>eof_once\<close>: after the respawn, handle 2 is sent \<open>Q\<close> again, and the
  two payloads that \<open>Exchange\<close> sent are both \<open>Q\<close>.
\<close>

theorem retry_sends_original_payload_witness:
  "Exchange (fake eof_once) Background ''Q'' start =
     Some ((''R2'', None),
       \<lparr>process = 2, world = \<lparr>clock = 7, inbox = ''Q''\<rparr>,
        trace = [EvSpawn 0, EvLock, EvSend 1 ''Q'', EvReceive 1, EvWait 1, EvSpawn 1,
                 EvSend 2 ''Q'', EvReceive 2, EvUnlock]\<rparr>) \<and>
   sent_payloads [EvSpawn 0, EvLock, EvSend 1 ''Q'', EvReceive 1, EvWait 1, EvSpawn 1,
                  EvSend 2 ''Q'', EvReceive 2, EvUnlock] =
     sent_payloads (trace start) @ [''Q'', ''Q''] \<and>
   prefix ([EvSpawn 0, EvLock, EvSend 1 ''Q'', EvReceive 1, EvWait 1, EvSpawn 1] @
           [EvSend 2 ''Q''])
     [EvSpawn 0, EvLock, EvSend 1 ''Q'', EvReceive 1, EvWait 1, EvSpawn 1,
      EvSend 2 ''Q'', EvReceive 2, EvUnlock]"
proof -
  have run: "Exchange (fake eof_once) Background ''Q'' start =
     Some ((''R2'', None),
       \<lparr>process = 2, world = \<lparr>clock = 7, inbox = ''Q''\<rparr>,
        trace = [EvSpawn 0, EvLock, EvSend 1 ''Q'', EvReceive 1, EvWait 1, EvSpawn 1,
                 EvSend 2 ''Q'', EvReceive 2, EvUnlock]\<rparr>)"
    using Exchange_returns
      [of "fake eof_once" Background start
          "\<lparr>process = 1, world = \<lparr>clock = 1, inbox = []\<rparr>, trace = [EvSpawn 0, EvLock]\<rparr>"
          "''Q''" 1
          "\<lparr>process = 2, world = \<lparr>clock = 5, inbox = ''Q''\<rparr>,
            trace = [EvSpawn 0, EvLock, EvSend 1 ''Q'', EvReceive 1, EvWait 1, EvSpawn 1]\<rparr>"
          "(''R2'', None)"
          "\<lparr>process = 2, world = \<lparr>clock = 7, inbox = ''Q''\<rparr>,
            trace = [EvSpawn 0, EvLock, EvSend 1 ''Q'', EvReceive 1, EvWait 1, EvSpawn 1,
                     EvSend 2 ''Q'', EvReceive 2]\<rparr>"]
    by (simp add: fake_defs Exchange_body_def)
  show ?thesis
    using run
      retry_sends_original_payload
        [where env = "fake eof_once" and ctx = Background and s = start and data = "''Q''"
           and r = "(''R2'', None)"
           and ?s1.0 = "\<lparr>process = 2, world = \<lparr>clock = 7, inbox = ''Q''\<rparr>,
              trace = [EvSpawn 0, EvLock, EvSend 1 ''Q'', EvReceive 1, EvWait 1, EvSpawn 1,
                       EvSend 2 ''Q'', EvReceive 2, EvUnlock]\<rparr>"
           and ?s0.0 = "\<lparr>process = 1, world = \<lparr>clock = 1, inbox = []\<rparr>,
              trace = [EvSpawn 0, EvLock]\<rparr>"
           and n = 1
           and sn = "\<lparr>process = 2, world = \<lparr>clock = 5, inbox = ''Q''\<rparr>,
              trace = [EvSpawn 0, EvLock, EvSend 1 ''Q'', EvReceive 1, EvWait 1, EvSpawn 1]\<rparr>"]
    by (simp add: fake_defs Exchange_body_def)
qed

text \<open>
  C10. In the attempt of iteration \<open>n\<close>, when Send fails the attempt ends with that
  error and Receive is not called. The error of Send and an error of Receive are
  classified alike: the next call is Wait on the current handle if and only if the
  error is a transient transport failure, and the error is returned as it is if and only
  if it is not.
\<close>

theorem Send_error_skips_Receive_and_is_classified_alike:
  assumes "Lock env ctx s = (None, s0)"
    and "loop_top env ctx data n s0 = Some sn"
    and "ctx_Err env ctx (world sn) = None"
  shows "(proc_Send env (process sn) ctx data (world sn) = (Some err, w1) \<longrightarrow>
            exchange env ctx data sn =
              (([], Some err),
               \<lparr>process = process sn, world = w1,
                trace = trace sn @ [EvSend (process sn) data]\<rparr>) \<and>
            (transient_transport_failure err \<longleftrightarrow>
               prefix (trace sn @ [EvSend (process sn) data, EvWait (process sn)])
                 (trace (snd (Exchange_body env ctx data sn)))) \<and>
            (\<not> transient_transport_failure err \<longleftrightarrow>
               Exchange_body env ctx data sn =
                 (Return ([], Some err),
                  \<lparr>process = process sn, world = w1,
                   trace = trace sn @ [EvSend (process sn) data]\<rparr>))) \<and>
         (proc_Send env (process sn) ctx data (world sn) = (None, w1) \<and>
          proc_Receive env (process sn) ctx w1 = ((d, Some err), w2) \<longrightarrow>
            exchange env ctx data sn =
              ((d, Some err),
               \<lparr>process = process sn, world = w2,
                trace = trace sn @ [EvSend (process sn) data, EvReceive (process sn)]\<rparr>) \<and>
            (transient_transport_failure err \<longleftrightarrow>
               prefix (trace sn @
                   [EvSend (process sn) data, EvReceive (process sn), EvWait (process sn)])
                 (trace (snd (Exchange_body env ctx data sn)))) \<and>
            (\<not> transient_transport_failure err \<longleftrightarrow>
               Exchange_body env ctx data sn =
                 (Return ([], Some err),
                  \<lparr>process = process sn, world = w2,
                   trace = trace sn @ [EvSend (process sn) data, EvReceive (process sn)]\<rparr>)))"
proof -
  have classified:
    "(transient_transport_failure err \<longleftrightarrow>
        prefix (trace s1 @ [EvWait (process sn)]) (trace (snd (Exchange_body env ctx data sn)))) \<and>
     (\<not> transient_transport_failure err \<longleftrightarrow>
        Exchange_body env ctx data sn = (Return ([], Some err), s1))"
    if e: "exchange env ctx data sn = ((d', Some err), s1)" for d' s1
  proof (cases "transient_transport_failure err")
    case True
    have pre: "prefix (trace s1 @ [EvWait (process sn)]) (trace (snd (Exchange_body env ctx data sn)))"
      using assms(3) e True by (rule body_transient_trace)
    have "Exchange_body env ctx data sn \<noteq> (Return ([], Some err), s1)"
    proof
      assume "Exchange_body env ctx data sn = (Return ([], Some err), s1)"
      with pre have "prefix (trace s1 @ [EvWait (process sn)]) (trace s1)" by simp
      then show False by (auto simp: prefix_def)
    qed
    with pre True show ?thesis by simp
  next
    case False
    have b: "Exchange_body env ctx data sn = (Return ([], Some err), s1)"
      using assms(3) e False by (rule body_other)
    have "\<not> prefix (trace s1 @ [EvWait (process sn)]) (trace s1)"
      by (auto simp: prefix_def)
    with b False show ?thesis by simp
  qed
  show ?thesis
  proof (intro conjI impI)
    assume snd_err: "proc_Send env (process sn) ctx data (world sn) = (Some err, w1)"
    let ?s1 = "\<lparr>process = process sn, world = w1, trace = trace sn @ [EvSend (process sn) data]\<rparr>"
    show e: "exchange env ctx data sn = (([], Some err), ?s1)"
      using snd_err by (simp add: exchange_def process_Send_def log_event_def)
    have tr: "trace ?s1 @ [EvWait (process sn)] =
        trace sn @ [EvSend (process sn) data, EvWait (process sn)]"
      by simp
    show "transient_transport_failure err \<longleftrightarrow>
        prefix (trace sn @ [EvSend (process sn) data, EvWait (process sn)])
          (trace (snd (Exchange_body env ctx data sn)))"
      using conjunct1 [OF classified [OF e]] unfolding tr .
    show "\<not> transient_transport_failure err \<longleftrightarrow>
        Exchange_body env ctx data sn = (Return ([], Some err), ?s1)"
      using conjunct2 [OF classified [OF e]] .
  next
    assume rcv_err: "proc_Send env (process sn) ctx data (world sn) = (None, w1) \<and>
      proc_Receive env (process sn) ctx w1 = ((d, Some err), w2)"
    let ?s1 = "\<lparr>process = process sn, world = w2,
      trace = trace sn @ [EvSend (process sn) data, EvReceive (process sn)]\<rparr>"
    show e: "exchange env ctx data sn = ((d, Some err), ?s1)"
      using rcv_err
      by (simp add: exchange_def process_Send_def process_Receive_def log_event_def)
    have tr: "trace ?s1 @ [EvWait (process sn)] =
        trace sn @ [EvSend (process sn) data, EvReceive (process sn), EvWait (process sn)]"
      by simp
    show "transient_transport_failure err \<longleftrightarrow>
        prefix (trace sn @ [EvSend (process sn) data, EvReceive (process sn), EvWait (process sn)])
          (trace (snd (Exchange_body env ctx data sn)))"
      using conjunct1 [OF classified [OF e]] unfolding tr .
    show "\<not> transient_transport_failure err \<longleftrightarrow>
        Exchange_body env ctx data sn = (Return ([], Some err), ?s1)"
      using conjunct2 [OF classified [OF e]] .
  qed
qed

text \<open>
  C10 on a Send that fails on a broken pipe (Wait follows Send at once) and on a Receive
  that fails on EOF (Wait follows Receive).
\<close>

theorem Send_error_skips_Receive_and_is_classified_alike_witness:
  "exchange (fake broken_send) Background ''Q''
       \<lparr>process = 1, world = \<lparr>clock = 1, inbox = []\<rparr>, trace = [EvSpawn 0, EvLock]\<rparr> =
     (([], Some (ErrorString ''write |1: broken pipe'')),
      \<lparr>process = 1, world = \<lparr>clock = 2, inbox = ''Q''\<rparr>,
       trace = [EvSpawn 0, EvLock, EvSend 1 ''Q'']\<rparr>) \<and>
   prefix [EvSpawn 0, EvLock, EvSend 1 ''Q'', EvWait 1]
     (trace (snd (Exchange_body (fake broken_send) Background ''Q''
        \<lparr>process = 1, world = \<lparr>clock = 1, inbox = []\<rparr>, trace = [EvSpawn 0, EvLock]\<rparr>))) \<and>
   prefix [EvSpawn 0, EvLock, EvSend 1 ''Q'', EvReceive 1, EvWait 1]
     (trace (snd (Exchange_body (fake eof_once) Background ''Q''
        \<lparr>process = 1, world = \<lparr>clock = 1, inbox = []\<rparr>, trace = [EvSpawn 0, EvLock]\<rparr>)))"
  using Send_error_skips_Receive_and_is_classified_alike
    [where env = "fake broken_send" and ctx = Background and s = start and data = "''Q''"
       and n = 0 and err = "ErrorString ''write |1: broken pipe''"
       and ?s0.0 = "\<lparr>process = 1, world = \<lparr>clock = 1, inbox = []\<rparr>, trace = [EvSpawn 0, EvLock]\<rparr>"
       and sn = "\<lparr>process = 1, world = \<lparr>clock = 1, inbox = []\<rparr>, trace = [EvSpawn 0, EvLock]\<rparr>"
       and ?w1.0 = "\<lparr>clock = 2, inbox = ''Q''\<rparr>"]
    Send_error_skips_Receive_and_is_classified_alike
    [where env = "fake eof_once" and ctx = Background and s = start and data = "''Q''"
       and n = 0 and err = EOF and d = "[]"
       and ?s0.0 = "\<lparr>process = 1, world = \<lparr>clock = 1, inbox = []\<rparr>, trace = [EvSpawn 0, EvLock]\<rparr>"
       and sn = "\<lparr>process = 1, world = \<lparr>clock = 1, inbox = []\<rparr>, trace = [EvSpawn 0, EvLock]\<rparr>"
       and ?w1.0 = "\<lparr>clock = 2, inbox = ''Q''\<rparr>" and ?w2.0 = "\<lparr>clock = 3, inbox = ''Q''\<rparr>"]
  by (simp add: fake_defs sublist_code)

end
